theory Spec2Isabelle
  imports Complex_Main "HOL-Library.List_Lexorder" "HOL-Library.Char_ord"
begin

section \<open>JavaScript numbers and arrays\<close>

text \<open>
  The library computes on JavaScript numbers. Finite numbers are modelled by the reals
  (rounding is not modelled; no property below depends on it), together with the three
  special values a division or an arithmetic operation on \<open>undefined\<close> can produce.
  Sample values are integers (event counts and durations in milliseconds, as
  \<open>StandardTimer.updateSince\<close> produces them); the clock \<open>Date.now()\<close> counts
  milliseconds.
\<close>

datatype jsnum = Fin real | PosInf | NegInf | NaN

text \<open>\<open>x / y\<close> on finite numbers: a zero divisor gives an infinity or \<open>NaN\<close>, never an error.\<close>

definition js_div :: "real \<Rightarrow> real \<Rightarrow> jsnum" where
  "js_div x y =
     (if y \<noteq> 0 then Fin (x / y)
      else if 0 < x then PosInf
      else if x < 0 then NegInf
      else NaN)"

text \<open>\<open>k * c\<close> for a number \<open>k\<close> that may be special and a finite \<open>c\<close>.\<close>

fun js_mul :: "jsnum \<Rightarrow> real \<Rightarrow> jsnum" where
  "js_mul (Fin k) c = Fin (k * c)"
| "js_mul PosInf c = (if 0 < c then PosInf else if c < 0 then NegInf else NaN)"
| "js_mul NegInf c = (if 0 < c then NegInf else if c < 0 then PosInf else NaN)"
| "js_mul NaN c = NaN"

text \<open>
  \<open>vals[x]\<close> for a number \<open>x\<close>: an element when \<open>x\<close> is an integer index inside the
  array, \<open>undefined\<close> (here \<open>None\<close>) otherwise; a fractional \<open>x\<close> names no element.
\<close>

definition js_get :: "int list \<Rightarrow> real \<Rightarrow> int option" where
  "js_get vals x =
     (if x = of_int \<lfloor>x\<rfloor> \<and> 0 \<le> x \<and> nat \<lfloor>x\<rfloor> < length vals
      then Some (vals ! nat \<lfloor>x\<rfloor>) else None)"

text \<open>
  \<open>Number.prototype.toString\<close> on an integer (plain decimal digits, exact below
  \<open>10^21\<close>), and \<open>Array.prototype.sort()\<close> called with no comparator: a stable sort
  of the elements by their string images, compared code unit by code unit.
\<close>

definition digit_char :: "nat \<Rightarrow> char" where
  "digit_char d = char_of (48 + d)"

fun digits :: "nat \<Rightarrow> string" where
  "digits n = (if n < 10 then [digit_char n] else digits (n div 10) @ [digit_char (n mod 10)])"

declare digits.simps [simp del]

definition js_toString :: "int \<Rightarrow> string" where
  "js_toString i = (if i < 0 then CHR ''-'' # digits (nat (- i)) else digits (nat i))"

definition js_sort :: "int list \<Rightarrow> int list" where
  "js_sort vals = sort_key js_toString vals"

section \<open>Statistics helpers (sample.ts)\<close>

definition MIN_SAFE_INTEGER :: int where
  "MIN_SAFE_INTEGER = - (2 ^ 53 - 1)"

definition MAX_SAFE_INTEGER :: int where
  "MAX_SAFE_INTEGER = 2 ^ 53 - 1"

definition sampleMax :: "int list \<Rightarrow> int" where
  "sampleMax vals =
     (if length vals = 0 then 0
      else fold (\<lambda>v m. if m < v then v else m) vals MIN_SAFE_INTEGER)"

definition sampleSum :: "int list \<Rightarrow> int" where
  "sampleSum vals = fold (\<lambda>v s. s + v) vals 0"

definition sampleMean :: "int list \<Rightarrow> real" where
  "sampleMean vals =
     (if length vals = 0 then 0
      else real_of_int (sampleSum vals) / real (length vals))"

definition sampleMin :: "int list \<Rightarrow> int" where
  "sampleMin vals =
     (if length vals = 0 then 0
      else fold (\<lambda>v m. if m > v then v else m) vals MAX_SAFE_INTEGER)"

text \<open>
  One score of \<open>samplePercentiles\<close>, computed on the array after \<open>vals.sort()\<close>. In the
  interpolating branch the source indexes the array with \<open>pos - 1\<close> and \<open>pos\<close>
  themselves; arithmetic on \<open>undefined\<close> gives \<open>NaN\<close>.
\<close>

definition percentile_score :: "int list \<Rightarrow> real \<Rightarrow> jsnum" where
  "percentile_score svals p =
     (let len = length svals;
          pos = p * (real len + 1)
      in if pos < 1 then Fin (real_of_int (svals ! 0))
         else if pos \<ge> real len then Fin (real_of_int (svals ! (len - 1)))
         else (case (js_get svals (pos - 1), js_get svals pos) of
                 (Some lower, Some upper) \<Rightarrow>
                   Fin (real_of_int lower
                        + (pos - of_int \<lfloor>pos\<rfloor>) * (real_of_int upper - real_of_int lower))
               | _ \<Rightarrow> NaN))"

definition samplePercentiles :: "int list \<Rightarrow> real list \<Rightarrow> jsnum list" where
  "samplePercentiles vals ps =
     (if length vals = 0 then map (\<lambda>p. Fin 0) ps
      else map (percentile_score (js_sort vals)) ps)"

definition samplePercentile :: "int list \<Rightarrow> real \<Rightarrow> jsnum" where
  "samplePercentile vals p = samplePercentiles vals [p] ! 0"

definition sampleVariance :: "int list \<Rightarrow> real" where
  "sampleVariance vals =
     (if length vals = 0 then 0
      else (let m = sampleMean vals
            in fold (\<lambda>v s. s + (real_of_int v - m) * (real_of_int v - m)) vals 0
               / real (length vals)))"

definition sampleStdDev :: "int list \<Rightarrow> real" where
  "sampleStdDev vals = sqrt (sampleVariance vals)"

section \<open>UniformSample (sample.ts)\<close>

text \<open>
  The reservoir size is a number of observations, a natural number. \<open>Math.random()\<close>
  is an input of \<open>update\<close>: the draw \<open>u\<close>, a number in \<open>[0, 1)\<close>. The fields are those
  of the class; \<open>ExpDecaySample\<close> extends the record as it extends the class, so every
  method it does not override is the function below.
\<close>

record UniformSample =
  u_reservoirSize :: nat
  u_count :: nat
  u_values :: "int list"

definition new_UniformSample :: "nat \<Rightarrow> UniformSample" where
  "new_UniformSample R = \<lparr>u_reservoirSize = R, u_count = 0, u_values = []\<rparr>"

definition UniformSample_clear :: "'a UniformSample_scheme \<Rightarrow> 'a UniformSample_scheme" where
  "UniformSample_clear s = s\<lparr>u_count := 0, u_values := []\<rparr>"

definition UniformSample_count :: "'a UniformSample_scheme \<Rightarrow> nat" where
  "UniformSample_count s = u_count s"

definition UniformSample_max :: "'a UniformSample_scheme \<Rightarrow> int" where
  "UniformSample_max s = sampleMax (u_values s)"

definition UniformSample_mean :: "'a UniformSample_scheme \<Rightarrow> real" where
  "UniformSample_mean s = sampleMean (u_values s)"

definition UniformSample_min :: "'a UniformSample_scheme \<Rightarrow> int" where
  "UniformSample_min s = sampleMin (u_values s)"

definition UniformSample_size :: "'a UniformSample_scheme \<Rightarrow> nat" where
  "UniformSample_size s = length (u_values s)"

definition UniformSample_stdDev :: "'a UniformSample_scheme \<Rightarrow> real" where
  "UniformSample_stdDev s = sampleStdDev (u_values s)"

definition UniformSample_sum :: "'a UniformSample_scheme \<Rightarrow> int" where
  "UniformSample_sum s = sampleSum (u_values s)"

definition UniformSample_variance :: "'a UniformSample_scheme \<Rightarrow> real" where
  "UniformSample_variance s = sampleVariance (u_values s)"

text \<open>
  \<open>update(i)\<close> with the draw \<open>u\<close>. \<open>r\<close> is never negative for a draw in \<open>[0, 1)\<close>; a
  negative \<open>r\<close> would name no element of the array, which the guard writes out.
\<close>

definition UniformSample_update :: "real \<Rightarrow> int \<Rightarrow> UniformSample \<Rightarrow> UniformSample" where
  "UniformSample_update u i s =
     (let s1 = s\<lparr>u_count := u_count s + 1\<rparr>
      in if UniformSample_size s1 < u_reservoirSize s1
         then s1\<lparr>u_values := u_values s1 @ [i]\<rparr>
         else (let r = \<lfloor>u * real (u_count s1)\<rfloor>
               in if r < int (length (u_values s1))
                  then (if 0 \<le> r then s1\<lparr>u_values := (u_values s1)[nat r := i]\<rparr> else s1)
                  else s1))"

text \<open>\<open>values()\<close> copies the array; as a value, the copy is the list itself.\<close>

definition UniformSample_values :: "'a UniformSample_scheme \<Rightarrow> int list" where
  "UniformSample_values s = u_values s"

text \<open>A sequence of \<open>update\<close> calls, each with its draw, oldest first.\<close>

definition UniformSample_updates :: "(real \<times> int) list \<Rightarrow> UniformSample \<Rightarrow> UniformSample" where
  "UniformSample_updates ops s = fold (\<lambda>(u, i) s. UniformSample_update u i s) ops s"

text \<open>
  \<open>percentiles(ps)\<close> and \<open>percentile(p)\<close> hand the live array \<open>_values\<close> to the
  helper, which sorts it in place: the call returns the scores and leaves the sample with
  the reordered array.
\<close>

definition samplePercentiles_array :: "int list \<Rightarrow> int list" where
  "samplePercentiles_array vals = (if length vals = 0 then vals else js_sort vals)"

definition UniformSample_percentiles ::
  "real list \<Rightarrow> 'a UniformSample_scheme \<Rightarrow> jsnum list \<times> 'a UniformSample_scheme" where
  "UniformSample_percentiles ps s =
     (samplePercentiles (u_values s) ps,
      s\<lparr>u_values := samplePercentiles_array (u_values s)\<rparr>)"

definition UniformSample_percentile ::
  "real \<Rightarrow> 'a UniformSample_scheme \<Rightarrow> jsnum \<times> 'a UniformSample_scheme" where
  "UniformSample_percentile p s =
     (samplePercentile (u_values s) p,
      s\<lparr>u_values := samplePercentiles_array (u_values s)\<rparr>)"

section \<open>ExpDecaySample (sample.ts)\<close>

text \<open>
  The class keeps two \<open>Date\<close> objects, \<open>#t0\<close> and \<open>#t1\<close>, and mutates them with
  \<open>setTime\<close>; the constructor makes both fields name one object. The sample therefore
  carries its \<open>Date\<close> objects in a store \<open>e_dates\<close> (milliseconds, by address) and the
  two fields are addresses. \<open>new Date()\<close> reads the clock, the input \<open>now\<close> of every
  method that calls it. \<open>#values\<close> is the list \<open>e_values\<close> of (key, value) entries; the
  inherited \<open>_count\<close> and \<open>_values\<close> are the fields of the base record.
\<close>

record ExpDecaySample = UniformSample +
  e_reservoirSize :: nat
  e_alpha :: real
  e_t0 :: nat
  e_t1 :: nat
  e_values :: "(jsnum \<times> int) list"
  e_dates :: "int list"

definition rescaleThreshold :: int where
  "rescaleThreshold = 3600000"

definition Date_new :: "int \<Rightarrow> int list \<Rightarrow> nat \<times> int list" where
  "Date_new now ds = (length ds, ds @ [now])"

definition getTime :: "int list \<Rightarrow> nat \<Rightarrow> int" where
  "getTime ds d = ds ! d"

definition setTime :: "int list \<Rightarrow> nat \<Rightarrow> int \<Rightarrow> int list" where
  "setTime ds d v = ds[d := v]"

definition new_ExpDecaySample :: "int \<Rightarrow> real \<Rightarrow> nat \<Rightarrow> ExpDecaySample" where
  "new_ExpDecaySample now alpha R =
     (let (t0, ds) = Date_new now [];
          t1 = t0;
          ds1 = setTime ds t1 (getTime ds t1 + rescaleThreshold)
      in \<lparr>u_reservoirSize = R, u_count = 0, u_values = [],
          e_reservoirSize = R, e_alpha = alpha, e_t0 = t0, e_t1 = t1,
          e_values = [], e_dates = ds1\<rparr>)"

definition ExpDecaySample_clear :: "int \<Rightarrow> ExpDecaySample \<Rightarrow> ExpDecaySample" where
  "ExpDecaySample_clear now s =
     (let s1 = UniformSample_clear s;
          (t0, ds) = Date_new now (e_dates s1);
          ds1 = setTime ds (e_t1 s1) (getTime ds (e_t1 s1) + rescaleThreshold)
      in s1\<lparr>e_t0 := t0, e_dates := ds1\<rparr>)"

text \<open>
  \<open>update(i)\<close> at clock \<open>now\<close> with the draw \<open>u\<close> of \<open>Math.random()\<close>. The capacity
  test reads \<open>this.size()\<close>, the length of the inherited \<open>_values\<close>, and pops from that
  array; the new entry is pushed to \<open>#values\<close>. In the rescale branch the local \<open>t0\<close>
  still names the old origin object, read after \<open>#t1.setTime\<close>.
\<close>

definition ExpDecaySample_update :: "int \<Rightarrow> real \<Rightarrow> int \<Rightarrow> ExpDecaySample \<Rightarrow> ExpDecaySample" where
  "ExpDecaySample_update now u i s =
     (let (t, ds) = Date_new now (e_dates s);
          s1 = s\<lparr>u_count := u_count s + 1, e_dates := ds\<rparr>;
          s2 = (if UniformSample_size s1 = e_reservoirSize s1
                then s1\<lparr>u_values := butlast (u_values s1)\<rparr> else s1);
          f = \<lfloor>u * real (u_count s2)\<rfloor>;
          elapsed = real_of_int (getTime ds t - getTime ds (e_t0 s2)) / 1000;
          s3 = s2\<lparr>e_values := e_values s2
                  @ [(js_div (exp (elapsed * e_alpha s2)) (real_of_int f), i)]\<rparr>
      in if getTime ds t > getTime ds (e_t1 s3)
         then (let vals = e_values s3;
                   t0 = e_t0 s3;
                   ds1 = setTime ds (e_t1 s3) (getTime ds t + rescaleThreshold)
               in s3\<lparr>e_values :=
                       map (\<lambda>(k, v).
                              (js_mul k (exp (- e_alpha s3
                                   * real_of_int (getTime ds1 t - getTime ds1 t0) / 1000)), v))
                           vals,
                     e_t0 := t, e_dates := ds1\<rparr>)
         else s3)"

text \<open>A sequence of \<open>update\<close> calls, each with its clock reading and its draw, oldest first.\<close>

definition ExpDecaySample_updates ::
  "(int \<times> real \<times> int) list \<Rightarrow> ExpDecaySample \<Rightarrow> ExpDecaySample" where
  "ExpDecaySample_updates ops s = fold (\<lambda>(now, u, i) s. ExpDecaySample_update now u i s) ops s"

section \<open>StandardEWMA (ewma.ts)\<close>


record StandardEWMA =
  w_alpha :: real
  w_period :: int
  w_ts :: int
  w_ewma :: real
  w_sample :: real
  w_init :: bool

definition new_StandardEWMA :: "int \<Rightarrow> real \<Rightarrow> int \<Rightarrow> StandardEWMA" where
  "new_StandardEWMA now alpha period =
     \<lparr>w_alpha = alpha, w_period = period, w_ts = now, w_ewma = 0, w_sample = 0,
      w_init = False\<rparr>"

definition newEWMA :: "int \<Rightarrow> real \<Rightarrow> StandardEWMA" where
  "newEWMA now alpha = new_StandardEWMA now alpha 5000"

definition newEWMA1 :: "int \<Rightarrow> StandardEWMA" where
  "newEWMA1 now = new_StandardEWMA now (1 - exp (- 5 / 60 / 1)) 5000"

definition newEWMA5 :: "int \<Rightarrow> StandardEWMA" where
  "newEWMA5 now = new_StandardEWMA now (1 - exp (- 5 / 60 / 5)) 5000"

definition newEWMA15 :: "int \<Rightarrow> StandardEWMA" where
  "newEWMA15 now = new_StandardEWMA now (1 - exp (- 5 / 60 / 15)) 5000"

function ewma_decay :: "real \<Rightarrow> StandardEWMA \<Rightarrow> StandardEWMA" where
  "ewma_decay periods s =
     (if periods \<ge> 1
      then ewma_decay (periods - 1)
             (s\<lparr>w_ewma := (1 - w_alpha s) * w_ewma s, w_ts := w_ts s + w_period s\<rparr>)
      else s)"
  by pat_completeness auto
termination
proof (relation "measure (\<lambda>(periods, s). nat \<lceil>periods\<rceil>)")
  show "wf (measure (\<lambda>(periods :: real, s :: StandardEWMA). nat \<lceil>periods\<rceil>))"
    by simp
next
  fix periods :: real and s :: StandardEWMA
  assume "1 \<le> periods"
  then have "nat \<lceil>periods - 1\<rceil> < nat \<lceil>periods\<rceil>"
    by linarith
  then show "((periods - 1, s\<lparr>w_ewma := (1 - w_alpha s) * w_ewma s, w_ts := w_ts s + w_period s\<rparr>),
              periods, s) \<in> measure (\<lambda>(periods, s). nat \<lceil>periods\<rceil>)"
    by simp
qed

declare ewma_decay.simps [simp del]

definition ewma_commit :: "real \<Rightarrow> StandardEWMA \<Rightarrow> StandardEWMA" where
  "ewma_commit periods s =
     (let seconds = real_of_int (w_period s) / 1000;
          (s1, p1) = (if \<not> w_init s
                      then (s\<lparr>w_ewma := w_sample s / seconds, w_ts := w_ts s + w_period s,
                              w_init := True, w_sample := 0\<rparr>, periods - 1)
                      else (s, periods));
          (s2, p2) = (if p1 \<ge> 1
                      then (s1\<lparr>w_ewma := w_alpha s1 * (w_sample s1 / seconds)
                                            + (1 - w_alpha s1) * w_ewma s1,
                               w_sample := 0, w_ts := w_ts s1 + w_period s1\<rparr>, p1 - 1)
                      else (s1, p1))
      in ewma_decay p2 s2)"

definition StandardEWMA_rate :: "int \<Rightarrow> StandardEWMA \<Rightarrow> real \<times> StandardEWMA" where
  "StandardEWMA_rate now s =
     (let periods = real_of_int (now - w_ts s) / real_of_int (w_period s)
      in if periods < 1 \<or> \<not> w_init s then (w_ewma s, s)
         else (let s1 = ewma_commit periods s in (w_ewma s1, s1)))"

definition StandardEWMA_update :: "int \<Rightarrow> real \<Rightarrow> StandardEWMA \<Rightarrow> StandardEWMA" where
  "StandardEWMA_update now i s =
     (let periods = real_of_int (now - w_ts s) / real_of_int (w_period s)
      in if \<not> w_init s \<and> periods < 1 then s\<lparr>w_sample := w_sample s + i, w_ewma := 0\<rparr>
         else if periods < 1 then s\<lparr>w_sample := w_sample s + i\<rparr>
         else (let s1 = ewma_commit periods s in s1\<lparr>w_sample := w_sample s1 + i\<rparr>))"

section \<open>StandardMeter (meter.ts)\<close>

record StandardMeter =
  m_count :: int
  m_a1 :: StandardEWMA
  m_a5 :: StandardEWMA
  m_a15 :: StandardEWMA
  m_start :: int

definition new_StandardMeter :: "int \<Rightarrow> StandardMeter" where
  "new_StandardMeter now =
     \<lparr>m_count = 0, m_a1 = newEWMA1 now, m_a5 = newEWMA5 now, m_a15 = newEWMA15 now,
      m_start = now\<rparr>"

definition StandardMeter_count :: "StandardMeter \<Rightarrow> int" where
  "StandardMeter_count m = m_count m"

definition StandardMeter_mark :: "int \<Rightarrow> int \<Rightarrow> StandardMeter \<Rightarrow> StandardMeter" where
  "StandardMeter_mark now i m =
     m\<lparr>m_count := m_count m + i,
       m_a1 := StandardEWMA_update now (real_of_int i) (m_a1 m),
       m_a5 := StandardEWMA_update now (real_of_int i) (m_a5 m),
       m_a15 := StandardEWMA_update now (real_of_int i) (m_a15 m)\<rparr>"

section \<open>StandardHistogram and StandardTimer (histogram.ts, timer.ts)\<close>

text \<open>
  The clock readings made within one call are one instant, the input \<open>now\<close>.
  The histogram is a facade over its sample; the timer builds it over
  \<open>new ExpDecaySample(0.015, 1028)\<close>, the sample type modelled here. \<open>count\<close>, \<open>max\<close>
  and \<open>min\<close> of an \<open>ExpDecaySample\<close> are the methods it inherits from \<open>UniformSample\<close>.
\<close>

record StandardHistogram =
  h_sample :: ExpDecaySample

definition new_StandardHistogram :: "ExpDecaySample \<Rightarrow> StandardHistogram" where
  "new_StandardHistogram sample = \<lparr>h_sample = sample\<rparr>"

definition StandardHistogram_count :: "StandardHistogram \<Rightarrow> nat" where
  "StandardHistogram_count h = UniformSample_count (h_sample h)"

definition StandardHistogram_max :: "StandardHistogram \<Rightarrow> int" where
  "StandardHistogram_max h = UniformSample_max (h_sample h)"

definition StandardHistogram_min :: "StandardHistogram \<Rightarrow> int" where
  "StandardHistogram_min h = UniformSample_min (h_sample h)"

definition StandardHistogram_update :: "int \<Rightarrow> real \<Rightarrow> int \<Rightarrow> StandardHistogram \<Rightarrow> StandardHistogram" where
  "StandardHistogram_update now u v h = h\<lparr>h_sample := ExpDecaySample_update now u v (h_sample h)\<rparr>"

record StandardTimer =
  t_hist :: StandardHistogram
  t_meter :: StandardMeter

definition new_StandardTimer :: "int \<Rightarrow> StandardTimer" where
  "new_StandardTimer now =
     \<lparr>t_hist = new_StandardHistogram (new_ExpDecaySample now (15 / 1000) 1028),
      t_meter = new_StandardMeter now\<rparr>"

definition StandardTimer_count :: "StandardTimer \<Rightarrow> nat" where
  "StandardTimer_count t = StandardHistogram_count (t_hist t)"

definition StandardTimer_max :: "StandardTimer \<Rightarrow> int" where
  "StandardTimer_max t = StandardHistogram_max (t_hist t)"

definition StandardTimer_min :: "StandardTimer \<Rightarrow> int" where
  "StandardTimer_min t = StandardHistogram_min (t_hist t)"

definition StandardTimer_update :: "int \<Rightarrow> real \<Rightarrow> int \<Rightarrow> StandardTimer \<Rightarrow> StandardTimer" where
  "StandardTimer_update now u d t =
     t\<lparr>t_hist := StandardHistogram_update now u d (t_hist t),
       t_meter := StandardMeter_mark now 1 (t_meter t)\<rparr>"

section \<open>Samples as objects: arrays in a store\<close>

text \<open>
  Where it matters which array a method returns, arrays live in a store (their contents,
  by address) and the field \<open>_values\<close> of a sample object is an address. The record is
  extensible as above: an \<open>ExpDecaySample\<close> object has these fields and inherits
  \<open>values\<close> and every statistics query unchanged. \<open>sample_of\<close> reads the object
  together with the contents of its array; each query is the method of the sections
  above on it, and the percentile queries write the sorted array back in place.
\<close>

type_synonym store = "int list list"

record UniformSample_obj =
  o_reservoirSize :: nat
  o_count :: nat
  o_values :: nat

definition sample_of :: "store \<Rightarrow> 'a UniformSample_obj_scheme \<Rightarrow> UniformSample" where
  "sample_of h s =
     \<lparr>u_reservoirSize = o_reservoirSize s, u_count = o_count s, u_values = h ! o_values s\<rparr>"

text \<open>\<open>[]\<close> allocates a new, empty array.\<close>

definition array_new :: "store \<Rightarrow> nat \<times> store" where
  "array_new h = (length h, h @ [[]])"

text \<open>\<open>values()\<close>: \<open>Object.assign([], this._values)\<close> copies every element into a new array.\<close>

definition obj_values :: "'a UniformSample_obj_scheme \<Rightarrow> store \<Rightarrow> nat \<times> store" where
  "obj_values s h = (let (a, h1) = array_new h in (a, h1[a := h1 ! o_values s]))"

datatype query =
  Q_count | Q_max | Q_mean | Q_min | Q_percentile real | Q_percentiles "real list"
  | Q_size | Q_stdDev | Q_sum | Q_variance

datatype answer =
  A_nat nat | A_int int | A_real real | A_num jsnum | A_nums "jsnum list"

fun obj_query :: "query \<Rightarrow> 'a UniformSample_obj_scheme \<Rightarrow> store \<Rightarrow> answer \<times> store" where
  "obj_query Q_count s h = (A_nat (UniformSample_count (sample_of h s)), h)"
| "obj_query Q_max s h = (A_int (UniformSample_max (sample_of h s)), h)"
| "obj_query Q_mean s h = (A_real (UniformSample_mean (sample_of h s)), h)"
| "obj_query Q_min s h = (A_int (UniformSample_min (sample_of h s)), h)"
| "obj_query (Q_percentile p) s h =
     (let (r, s1) = UniformSample_percentile p (sample_of h s)
      in (A_num r, h[o_values s := u_values s1]))"
| "obj_query (Q_percentiles ps) s h =
     (let (r, s1) = UniformSample_percentiles ps (sample_of h s)
      in (A_nums r, h[o_values s := u_values s1]))"
| "obj_query Q_size s h = (A_nat (UniformSample_size (sample_of h s)), h)"
| "obj_query Q_stdDev s h = (A_real (UniformSample_stdDev (sample_of h s)), h)"
| "obj_query Q_sum s h = (A_int (UniformSample_sum (sample_of h s)), h)"
| "obj_query Q_variance s h = (A_real (UniformSample_variance (sample_of h s)), h)"

text \<open>A sequence of queries, run in order on the same object.\<close>

fun obj_queries :: "query list \<Rightarrow> 'a UniformSample_obj_scheme \<Rightarrow> store \<Rightarrow> answer list \<times> store" where
  "obj_queries [] s h = ([], h)"
| "obj_queries (q # qs) s h =
     (let (a, h1) = obj_query q s h;
          (as, h2) = obj_queries qs s h1
      in (a # as, h2))"

section \<open>Statistics on no data\<close>

text \<open>
  C5: on the empty sequence of retained values every statistics helper returns zero:
  min, max, mean, variance and stdDev are 0, percentile is 0 for every p, and percentiles
  returns one 0 for each requested p. The helpers are total: they have no failing branch.
\<close>

theorem empty_statistics_are_zero:
  "sampleMin [] = 0 \<and> sampleMax [] = 0 \<and> sampleMean [] = 0 \<and> sampleVariance [] = 0
   \<and> sampleStdDev [] = 0 \<and> samplePercentile [] p = Fin 0
   \<and> samplePercentiles [] ps = replicate (length ps) (Fin 0)"
  by (simp add: sampleMin_def sampleMax_def sampleMean_def sampleVariance_def
      sampleStdDev_def samplePercentile_def samplePercentiles_def map_replicate_const)

section \<open>Percentiles of a non-empty sample\<close>

lemma js_sort_10_9_1: "js_sort [10, 9, 1] = [1, 10, 9]"
  unfolding js_sort_def by code_simp

lemma js_sort_1_2: "js_sort [1, 2] = [1, 2]"
  unfolding js_sort_def by code_simp

lemma js_sort_readme: "js_sort [212, 777, 54] = [212, 54, 777]"
  unfolding js_sort_def by code_simp

text \<open>
  The README's histogram example (updates 212, 777, 54) prints
  \<open>percentile: { median: 54, _75: 777, _95: 777, _99: 777, _99_9: 777 }\<close>; the model
  computes the same scores.
\<close>

lemma samplePercentiles_readme:
  "samplePercentiles [212, 777, 54] [1 / 2, 3 / 4, 95 / 100, 99 / 100, 999 / 1000]
     = [Fin 54, Fin 777, Fin 777, Fin 777, Fin 777]"
  by (simp add: samplePercentiles_def js_sort_readme percentile_score_def js_get_def)

text \<open>Whenever the position falls strictly between two ranks, the score is \<open>NaN\<close>.\<close>

lemma percentile_score_fractional:
  assumes "1 \<le> p * (real (length vs) + 1)" and "p * (real (length vs) + 1) < real (length vs)"
    and "p * (real (length vs) + 1) \<noteq> of_int \<lfloor>p * (real (length vs) + 1)\<rfloor>"
  shows "percentile_score vs p = NaN"
proof -
  let ?pos = "p * (real (length vs) + 1)"
  have "?pos - 1 \<noteq> of_int \<lfloor>?pos - 1\<rfloor>" using assms(3) by simp
  then have "js_get vs (?pos - 1) = None" by (simp add: js_get_def)
  then show ?thesis using assms(1,2) by (simp add: percentile_score_def Let_def)
qed

text \<open>
  C1 (the claim: percentile(V, p) is computed over V sorted in ascending numeric order,
  and a position strictly between 1 and len(V) interpolates linearly between
  V[floor(pos)-1] and V[floor(pos)]). The code diverges at both points. For V = [1, 2]
  and p = 1/2 the position is 1.5 and the claim gives 1.5; the code reads
  \<open>vals[0.5]\<close> and \<open>vals[1.5]\<close> and returns \<open>NaN\<close>. For V = [10, 9, 1] and p = 1/2
  the position is 2 and the numeric order [1, 9, 10] gives 9; \<open>vals.sort()\<close> orders the
  values as strings, [1, 10, 9], and the code returns 10.
\<close>

theorem samplePercentile_diverges:
  "samplePercentile [1, 2] (1 / 2) = NaN \<and> samplePercentile [10, 9, 1] (1 / 2) = Fin 10"
  by (simp add: samplePercentile_def samplePercentiles_def js_sort_1_2 js_sort_10_9_1
      percentile_score_def js_get_def)

section \<open>UniformSample: the reservoir\<close>

lemma UniformSample_updates_Nil: "UniformSample_updates [] s = s"
  by (simp add: UniformSample_updates_def)

lemma UniformSample_updates_Cons:
  "UniformSample_updates ((u, i) # ops) s = UniformSample_updates ops (UniformSample_update u i s)"
  by (simp add: UniformSample_updates_def)

lemma UniformSample_update_reservoirSize:
  "u_reservoirSize (UniformSample_update u i s) = u_reservoirSize s"
  by (simp add: UniformSample_update_def Let_def)

lemma UniformSample_update_count:
  "u_count (UniformSample_update u i s) = Suc (u_count s)"
  by (simp add: UniformSample_update_def Let_def)

lemma UniformSample_update_below:
  "length (u_values s) < u_reservoirSize s \<Longrightarrow>
   u_values (UniformSample_update u i s) = u_values s @ [i]"
  by (simp add: UniformSample_update_def UniformSample_size_def Let_def)

lemma UniformSample_update_full:
  assumes "\<not> length (u_values s) < u_reservoirSize s"
  shows "u_values (UniformSample_update u i s) = u_values s \<or>
   (\<exists>r < length (u_values s). u_values (UniformSample_update u i s) = (u_values s)[r := i])"
proof -
  let ?r = "\<lfloor>u * real (u_count s + 1)\<rfloor>"
  show ?thesis
  proof (cases "?r < int (length (u_values s)) \<and> 0 \<le> ?r")
    case True
    then have "nat ?r < length (u_values s)" by linarith
    moreover have "u_values (UniformSample_update u i s) = (u_values s)[nat ?r := i]"
      using True assms
      by (simp add: UniformSample_update_def UniformSample_size_def Let_def
          del: of_nat_add of_nat_Suc)
    ultimately show ?thesis by blast
  next
    case False
    then have "u_values (UniformSample_update u i s) = u_values s"
      using assms
      by (auto simp add: UniformSample_update_def UniformSample_size_def Let_def
          simp del: of_nat_add of_nat_Suc)
    then show ?thesis by simp
  qed
qed

lemma UniformSample_update_length:
  "length (u_values (UniformSample_update u i s)) =
     (if length (u_values s) < u_reservoirSize s then Suc (length (u_values s))
      else length (u_values s))"
  by (simp add: UniformSample_update_def UniformSample_size_def Let_def)

lemma UniformSample_updates_reservoirSize:
  "u_reservoirSize (UniformSample_updates ops s) = u_reservoirSize s"
  by (induction ops arbitrary: s)
     (auto simp: UniformSample_updates_Nil UniformSample_updates_Cons
        UniformSample_update_reservoirSize)

lemma UniformSample_updates_count:
  "u_count (UniformSample_updates ops s) = u_count s + length ops"
  by (induction ops arbitrary: s)
     (auto simp: UniformSample_updates_Nil UniformSample_updates_Cons UniformSample_update_count)

text \<open>While there is room, every update appends.\<close>

lemma UniformSample_updates_below:
  "length (u_values s) + length ops \<le> u_reservoirSize s \<Longrightarrow>
   u_values (UniformSample_updates ops s) = u_values s @ map snd ops"
proof (induction ops arbitrary: s)
  case Nil
  then show ?case by (simp add: UniformSample_updates_Nil)
next
  case (Cons a ops)
  obtain u i where a: "a = (u, i)" by (cases a)
  from Cons.prems have lt: "length (u_values s) < u_reservoirSize s" by simp
  let ?s = "UniformSample_update u i s"
  have v: "u_values ?s = u_values s @ [i]" using lt by (rule UniformSample_update_below)
  have "length (u_values ?s) + length ops \<le> u_reservoirSize ?s"
    using Cons.prems by (simp add: v UniformSample_update_reservoirSize)
  from Cons.IH [OF this] show ?case
    by (simp add: a UniformSample_updates_Cons v)
qed

text \<open>The length of the retained sequence after any run of updates.\<close>

lemma UniformSample_updates_length:
  "length (u_values s) \<le> u_reservoirSize s \<Longrightarrow>
   length (u_values (UniformSample_updates ops s)) =
     min (u_reservoirSize s) (length (u_values s) + length ops)"
proof (induction ops arbitrary: s)
  case Nil
  then show ?case by (simp add: UniformSample_updates_Nil)
next
  case (Cons a ops)
  obtain u i where a: "a = (u, i)" by (cases a)
  let ?s = "UniformSample_update u i s"
  have le: "length (u_values ?s) \<le> u_reservoirSize ?s"
    using Cons.prems by (simp add: UniformSample_update_length UniformSample_update_reservoirSize)
  from Cons.IH [OF le] Cons.prems show ?case
    by (auto simp add: a UniformSample_updates_Cons UniformSample_update_length
        UniformSample_update_reservoirSize)
qed

text \<open>
  C6: after N updates into a new UniformSample with reservoir size R \<open>\<ge>\<close> N, whatever the
  random draws, size() = N, count() = N and the set of values() is the set of the inputs.
\<close>

theorem UniformSample_under_capacity:
  assumes "length ops \<le> R"
  shows "UniformSample_size (UniformSample_updates ops (new_UniformSample R)) = length ops
       \<and> UniformSample_count (UniformSample_updates ops (new_UniformSample R)) = length ops
       \<and> set (UniformSample_values (UniformSample_updates ops (new_UniformSample R)))
           = set (map snd ops)"
proof -
  have "length (u_values (new_UniformSample R)) + length ops
          \<le> u_reservoirSize (new_UniformSample R)"
    using assms by (simp add: new_UniformSample_def)
  from UniformSample_updates_below [OF this]
  have "u_values (UniformSample_updates ops (new_UniformSample R)) = map snd ops"
    by (simp add: new_UniformSample_def)
  then show ?thesis
    by (simp add: UniformSample_size_def UniformSample_count_def UniformSample_values_def
        UniformSample_updates_count new_UniformSample_def)
qed

theorem UniformSample_under_capacity_witness:
  "length [(1 / 2, 212), (1 / 4, 777), (0, 54 :: int)] \<le> (30 :: nat)
   \<and> UniformSample_size
        (UniformSample_updates [(1 / 2, 212), (1 / 4, 777), (0, 54)] (new_UniformSample 30)) = 3
   \<and> UniformSample_count
        (UniformSample_updates [(1 / 2, 212), (1 / 4, 777), (0, 54)] (new_UniformSample 30)) = 3
   \<and> set (UniformSample_values
        (UniformSample_updates [(1 / 2, 212), (1 / 4, 777), (0, 54)] (new_UniformSample 30)))
       = {212, 777, 54}"
  using UniformSample_under_capacity [of "[(1 / 2, 212), (1 / 4, 777), (0, 54)]" 30]
  by simp

text \<open>
  C7: after N > R updates into a new UniformSample with reservoir size R, size() = R
  and count() = N; after every prefix of the updates the retained sequence has at most R
  values; and from any state reached with exactly R values, a further update either
  leaves the values as they are (the new value is discarded) or overwrites one slot.
\<close>

theorem UniformSample_over_capacity:
  assumes "R < length ops"
  shows "UniformSample_size (UniformSample_updates ops (new_UniformSample R)) = R
       \<and> UniformSample_count (UniformSample_updates ops (new_UniformSample R)) = length ops
       \<and> (\<forall>k. UniformSample_size (UniformSample_updates (take k ops) (new_UniformSample R)) \<le> R)
       \<and> (\<forall>k u i.
            UniformSample_size (UniformSample_updates (take k ops) (new_UniformSample R)) = R \<longrightarrow>
            UniformSample_values
              (UniformSample_update u i (UniformSample_updates (take k ops) (new_UniformSample R)))
              = UniformSample_values (UniformSample_updates (take k ops) (new_UniformSample R))
            \<or> (\<exists>r<R. UniformSample_values
              (UniformSample_update u i (UniformSample_updates (take k ops) (new_UniformSample R)))
              = (UniformSample_values
                  (UniformSample_updates (take k ops) (new_UniformSample R)))[r := i]))"
proof -
  have len: "\<And>xs. length (u_values (UniformSample_updates xs (new_UniformSample R)))
                 = min R (length xs)"
    using UniformSample_updates_length [of "new_UniformSample R"]
    by (simp add: new_UniformSample_def)
  have a: "UniformSample_size (UniformSample_updates ops (new_UniformSample R)) = R"
    using assms by (simp add: UniformSample_size_def len)
  have b: "UniformSample_count (UniformSample_updates ops (new_UniformSample R)) = length ops"
    by (simp add: UniformSample_count_def UniformSample_updates_count new_UniformSample_def)
  have c: "\<forall>k. UniformSample_size (UniformSample_updates (take k ops) (new_UniformSample R)) \<le> R"
    by (simp add: UniformSample_size_def len)
  have d: "UniformSample_values (UniformSample_update u i s) = UniformSample_values s
            \<or> (\<exists>r<R. UniformSample_values (UniformSample_update u i s)
                       = (UniformSample_values s)[r := i])"
    if "UniformSample_size s = R" "u_reservoirSize s = R" for u i s
    using UniformSample_update_full [of s u i] that
    by (simp add: UniformSample_size_def UniformSample_values_def)
  have rs: "\<And>xs. u_reservoirSize (UniformSample_updates xs (new_UniformSample R)) = R"
    by (simp add: UniformSample_updates_reservoirSize new_UniformSample_def)
  show ?thesis using a b c d rs by blast
qed

theorem UniformSample_over_capacity_witness:
  "(1::nat) < length [(1 / 2, 5), (0, 7), (3 / 4, 9 :: int)]
   \<and> UniformSample_size
        (UniformSample_updates [(1 / 2, 5), (0, 7), (3 / 4, 9)] (new_UniformSample 1)) = 1
   \<and> UniformSample_count
        (UniformSample_updates [(1 / 2, 5), (0, 7), (3 / 4, 9)] (new_UniformSample 1)) = 3
   \<and> UniformSample_size
        (UniformSample_updates (take 1 [(1 / 2, 5), (0, 7), (3 / 4, 9)]) (new_UniformSample 1)) = 1
   \<and> UniformSample_values
        (UniformSample_updates [(1 / 2, 5), (0, 7), (3 / 4, 9)] (new_UniformSample 1)) = [7]"
  using UniformSample_over_capacity [of 1 "[(1 / 2, 5), (0, 7), (3 / 4, 9)]"]
  by (simp add: UniformSample_updates_def UniformSample_update_def new_UniformSample_def
      UniformSample_size_def UniformSample_values_def UniformSample_count_def Let_def)

section \<open>ExpDecaySample: the entries\<close>

lemma ExpDecaySample_update_entries:
  "map snd (e_values (ExpDecaySample_update now u i s)) = map snd (e_values s) @ [i]"
  by (simp add: ExpDecaySample_update_def Let_def split_def Date_new_def comp_def)

text \<open>No update removes an entry: every update adds one, whatever the reservoir size.\<close>

lemma ExpDecaySample_updates_entries:
  "map snd (e_values (ExpDecaySample_updates ops s))
     = map snd (e_values s) @ map (\<lambda>(now, u, i). i) ops"
  by (induction ops arbitrary: s)
     (auto simp: ExpDecaySample_updates_def ExpDecaySample_update_entries)

text \<open>The inherited array, which the statistics read, stays empty.\<close>

lemma ExpDecaySample_update_values:
  "u_values s = [] \<Longrightarrow> u_values (ExpDecaySample_update now u i s) = []"
  by (simp add: ExpDecaySample_update_def Let_def split_def Date_new_def)

text \<open>
  C2 (the claim: the retained (priorityKey, value) entries number at most R at every
  point, one entry being dropped before the insertion when the sample is at capacity).
  The code diverges: with reservoir size 1, after update(10) and update(20) the sample
  holds both entries. The capacity test compares the length of the inherited array, which
  is always empty, and pops from that array.
\<close>

theorem ExpDecaySample_exceeds_reservoir:
  "e_reservoirSize (ExpDecaySample_updates [(0, 1 / 2, 10), (1, 1 / 2, 20)]
       (new_ExpDecaySample 0 (15 / 1000) 1)) = 1
   \<and> map snd (e_values (ExpDecaySample_updates [(0, 1 / 2, 10), (1, 1 / 2, 20)]
       (new_ExpDecaySample 0 (15 / 1000) 1))) = [10, 20]"
  by (simp add: ExpDecaySample_updates_def ExpDecaySample_update_def new_ExpDecaySample_def
      Date_new_def getTime_def setTime_def rescaleThreshold_def UniformSample_size_def Let_def)

text \<open>
  C8 (the claim: the divisor f of every update lies in (0, count], so the priority key
  is a finite number and the division is never by zero). The code diverges: f is
  \<open>Math.floor(Math.random() * count)\<close>, an integer in [0, count), and on the first update
  of a sample (count = 1) it is 0; with the draw 1/2 the entry's key is
  \<open>exp(..) / 0 = Infinity\<close>.
\<close>

theorem ExpDecaySample_first_key_infinite:
  "e_values (ExpDecaySample_update 0 (1 / 2) 100 (new_ExpDecaySample 0 (15 / 1000) 1028))
     = [(PosInf, 100)]"
  by (simp add: ExpDecaySample_update_def new_ExpDecaySample_def Date_new_def
      getTime_def setTime_def rescaleThreshold_def UniformSample_size_def Let_def js_div_def)

section \<open>StandardTimer\<close>

text \<open>
  C4 (the claim: after one update(100) on a new StandardTimer, count() = 1, the
  histogram's max() and min() are 100 and the meter's count() is 1, the statistics being
  computed over the values of the retained entries). The two counts hold; max() and min()
  return 0, at every clock reading and draw: the value is pushed to \<open>#values\<close> and the
  statistics read the inherited \<open>_values\<close>, which stays empty.
\<close>

theorem StandardTimer_update_once:
  "StandardTimer_count (StandardTimer_update now u 100 (new_StandardTimer now0)) = 1
   \<and> StandardTimer_max (StandardTimer_update now u 100 (new_StandardTimer now0)) = 0
   \<and> StandardTimer_min (StandardTimer_update now u 100 (new_StandardTimer now0)) = 0
   \<and> StandardMeter_count (t_meter (StandardTimer_update now u 100 (new_StandardTimer now0))) = 1"
  by (simp add: StandardTimer_count_def StandardTimer_max_def StandardTimer_min_def
      StandardMeter_count_def StandardTimer_update_def new_StandardTimer_def
      StandardHistogram_update_def new_StandardHistogram_def StandardHistogram_count_def
      StandardHistogram_max_def StandardHistogram_min_def StandardMeter_mark_def
      new_StandardMeter_def ExpDecaySample_update_def new_ExpDecaySample_def
      UniformSample_count_def UniformSample_max_def UniformSample_min_def UniformSample_size_def
      sampleMax_def sampleMin_def Date_new_def Let_def split_def)

section \<open>StandardEWMA: lazy commitment\<close>


lemma ewma_decay_lt: "p < 1 \<Longrightarrow> ewma_decay p s = s"
  by (subst ewma_decay.simps) simp

text \<open>An EWMA that has committed nothing yet answers \<open>rate()\<close> without committing.\<close>

lemma StandardEWMA_rate_uninitialized:
  "\<not> w_init s \<Longrightarrow> StandardEWMA_rate now s = (w_ewma s, s)"
  by (simp add: StandardEWMA_rate_def Let_def)

text \<open>\<open>update\<close>, on the same state and at the same instant, commits the first period.\<close>

lemma StandardEWMA_update_commits_first_period:
  "w_ewma (StandardEWMA_update 5000 0 (StandardEWMA_update 0 3 (newEWMA1 0))) = 3 / 5"
  by (simp add: StandardEWMA_update_def newEWMA1_def new_StandardEWMA_def Let_def
      ewma_commit_def ewma_decay_lt)

text \<open>
  C3 (the claim: rate() alone commits lapsed periods; for an EWMA with alpha1min, 3
  marked within the first period and one period of 5000 ms lapsed, rate() returns 0.6,
  and 0.6 * (1 - alpha1min) after a second idle period). The code diverges: created at
  time 0 with update(3) at time 0, rate() at time 5000 returns 0 and leaves the state as
  it was, and rate() at time 10000 returns 0 again. The first test of \<open>rate\<close> returns
  as long as \<open>#init\<close> is false, so only \<open>update\<close> performs the first commitment.
\<close>

theorem StandardEWMA_rate_first_period:
  "StandardEWMA_rate 5000 (StandardEWMA_update 0 3 (newEWMA1 0))
     = (0, StandardEWMA_update 0 3 (newEWMA1 0))
   \<and> fst (StandardEWMA_rate 10000
        (snd (StandardEWMA_rate 5000 (StandardEWMA_update 0 3 (newEWMA1 0))))) = 0"
  by (simp add: StandardEWMA_rate_def StandardEWMA_update_def newEWMA1_def
      new_StandardEWMA_def Let_def)



text \<open>At the tick timestamp itself \<open>rate()\<close> reads the committed rate and changes nothing.\<close>

lemma StandardEWMA_rate_at_tick:
  "now = w_ts s \<Longrightarrow> StandardEWMA_rate now s = (w_ewma s, s)"
  by (simp add: StandardEWMA_rate_def)



section \<open>values() returns a copy\<close>

lemma obj_query_length: "length (snd (obj_query q s h)) = length h"
  by (cases q) (simp_all add: split_def Let_def)

text \<open>
  A query reads nothing but the object's own array: in two stores that agree on it, it
  gives the same answer and leaves that array the same.
\<close>

lemma obj_query_frame:
  assumes "length h = length h'" and "o_values s < length h"
    and "h ! o_values s = h' ! o_values s"
  shows "fst (obj_query q s h) = fst (obj_query q s h')
       \<and> length (snd (obj_query q s h)) = length (snd (obj_query q s h'))
       \<and> snd (obj_query q s h) ! o_values s = snd (obj_query q s h') ! o_values s"
  using assms
  by (cases q)
     (simp_all add: sample_of_def split_def Let_def UniformSample_percentile_def
        UniformSample_percentiles_def)

lemma obj_queries_frame:
  assumes "length h = length h'" and "o_values s < length h"
    and "h ! o_values s = h' ! o_values s"
  shows "fst (obj_queries qs s h) = fst (obj_queries qs s h')
       \<and> snd (obj_queries qs s h) ! o_values s = snd (obj_queries qs s h') ! o_values s"
  using assms
proof (induction qs arbitrary: h h')
  case Nil
  then show ?case by simp
next
  case (Cons q qs)
  let ?h1 = "snd (obj_query q s h)" and ?h1' = "snd (obj_query q s h')"
  from obj_query_frame [OF Cons.prems]
  have f: "fst (obj_query q s h) = fst (obj_query q s h')"
    and l: "length ?h1 = length ?h1'"
    and v: "?h1 ! o_values s = ?h1' ! o_values s" by simp_all
  have b: "o_values s < length ?h1" using Cons.prems(2) by (simp add: obj_query_length)
  from Cons.IH [OF l b v] f show ?case
    by (simp add: split_def Let_def)
qed

text \<open>
  The frame property of \<open>values()\<close>, for a sample object whose array is in the store:
  the call returns the address of a new array, different from the sample's own, holding a
  copy of \<open>_values\<close>, and leaves the sample's array as it was. Overwriting the returned
  array with any contents \<open>ys\<close> leaves the sample's array unchanged, and every sequence
  \<open>qs\<close> of statistics queries made afterwards gives the answers, and leaves the sample's
  array, as without the overwriting.
\<close>

lemma values_returns_fresh_copy:
  assumes "o_values s < length h"
  shows "fst (obj_values s h) \<noteq> o_values s
       \<and> snd (obj_values s h) ! fst (obj_values s h) = h ! o_values s
       \<and> snd (obj_values s h) ! o_values s = h ! o_values s
       \<and> (snd (obj_values s h))[fst (obj_values s h) := ys] ! o_values s = h ! o_values s
       \<and> fst (obj_queries qs s ((snd (obj_values s h))[fst (obj_values s h) := ys]))
           = fst (obj_queries qs s (snd (obj_values s h)))
       \<and> snd (obj_queries qs s ((snd (obj_values s h))[fst (obj_values s h) := ys])) ! o_values s
           = snd (obj_queries qs s (snd (obj_values s h))) ! o_values s"
proof -
  let ?r = "fst (obj_values s h)" and ?h1 = "snd (obj_values s h)"
  have r: "?r = length h" by (simp add: obj_values_def array_new_def)
  have h1: "?h1 = h @ [h ! o_values s]"
    using assms by (simp add: obj_values_def array_new_def nth_append)
  have ne: "?r \<noteq> o_values s" using assms r by simp
  have c1: "?h1 ! ?r = h ! o_values s" by (simp add: r h1)
  have c2: "?h1 ! o_values s = h ! o_values s" using assms by (simp add: h1 nth_append)
  have c3: "?h1[?r := ys] ! o_values s = ?h1 ! o_values s" using ne by simp
  have l: "length (?h1[?r := ys]) = length ?h1" by simp
  have b: "o_values s < length (?h1[?r := ys])" using assms by (simp add: h1)
  from obj_queries_frame [OF l b c3] ne c1 c2 c3 show ?thesis by simp
qed

text \<open>
  The README's sample (212, 777, 54): values() returns a second array; with that array
  overwritten by four zeros, the queries answer as they do on the untouched store.
\<close>

lemma values_returns_fresh_copy_readme:
  "o_values \<lparr>o_reservoirSize = 3, o_count = 3, o_values = 0\<rparr> < length [[212, 777, 54 :: int]]
   \<and> obj_values \<lparr>o_reservoirSize = 3, o_count = 3, o_values = 0\<rparr> [[212, 777, 54]]
       = (1, [[212, 777, 54], [212, 777, 54]])
   \<and> obj_queries [Q_max, Q_percentile (1 / 2), Q_min]
        \<lparr>o_reservoirSize = 3, o_count = 3, o_values = 0\<rparr> [[212, 777, 54], [212, 777, 54]]
       = ([A_int 777, A_num (Fin 54), A_int 54], [[212, 54, 777], [212, 777, 54]])
   \<and> fst (obj_queries [Q_max, Q_percentile (1 / 2), Q_min]
        \<lparr>o_reservoirSize = 3, o_count = 3, o_values = 0\<rparr> [[212, 777, 54], [0, 0, 0, 0]])
       = [A_int 777, A_num (Fin 54), A_int 54]"
proof -
  let ?s = "\<lparr>o_reservoirSize = 3, o_count = 3, o_values = 0\<rparr>"
  have v: "obj_values ?s [[212, 777, 54]] = (1, [[212, 777, 54], [212, 777, 54]])"
    by (simp add: obj_values_def array_new_def)
  have q: "obj_queries [Q_max, Q_percentile (1 / 2), Q_min] ?s [[212, 777, 54], [212, 777, 54]]
       = ([A_int 777, A_num (Fin 54), A_int 54], [[212, 54, 777], [212, 777, 54]])"
    by (simp add: sample_of_def UniformSample_max_def UniformSample_min_def
        UniformSample_percentile_def samplePercentile_def samplePercentiles_def
        samplePercentiles_array_def js_sort_readme percentile_score_def js_get_def
        sampleMax_def sampleMin_def MIN_SAFE_INTEGER_def MAX_SAFE_INTEGER_def)
  from values_returns_fresh_copy [of ?s "[[212, 777, 54]]" "[0, 0, 0, 0]"
      "[Q_max, Q_percentile (1 / 2), Q_min]"] v q
  show ?thesis by simp
qed

text \<open>
  On an \<open>ExpDecaySample\<close> the array that \<open>values()\<close> copies is never filled: whatever
  the updates, the copy is empty while the entries hold every input.
\<close>

lemma ExpDecaySample_updates_values:
  "u_values s = [] \<Longrightarrow> u_values (ExpDecaySample_updates ops s) = []"
proof (induction ops arbitrary: s)
  case Nil
  then show ?case by (simp add: ExpDecaySample_updates_def)
next
  case (Cons a ops)
  obtain now u i where a: "a = (now, u, i)" by (cases a)
  have "u_values (ExpDecaySample_update now u i s) = []"
    using Cons.prems by (rule ExpDecaySample_update_values)
  from Cons.IH [OF this] show ?case
    by (simp add: a ExpDecaySample_updates_def)
qed

lemma ExpDecaySample_values_not_retained:
  "UniformSample_values (ExpDecaySample_updates ops (new_ExpDecaySample now0 a R)) = []
   \<and> map snd (e_values (ExpDecaySample_updates ops (new_ExpDecaySample now0 a R)))
       = map (\<lambda>(now, u, i). i) ops"
proof -
  have "u_values (new_ExpDecaySample now0 a R) = []"
    and "e_values (new_ExpDecaySample now0 a R) = []"
    by (simp_all add: new_ExpDecaySample_def Date_new_def Let_def)
  then show ?thesis
    by (simp add: UniformSample_values_def ExpDecaySample_updates_values
        ExpDecaySample_updates_entries)
qed

text \<open>
  C10 (the claim: for every sample, uniform or exponentially decaying, values() returns
  a fresh copy of the retained values, and mutating the returned array changes neither
  the retained sequence nor any later statistics query). The frame half holds of both
  classes, as shown above. The code diverges on what an exponentially decaying sample
  returns: after update(100) on a new ExpDecaySample(0.015, 1028) the sample retains the
  value 100 in \<open>#values\<close>, and values(), inherited from UniformSample, returns a copy of
  the empty \<open>_values\<close>.
\<close>

theorem ExpDecaySample_values_empty:
  "UniformSample_values
     (ExpDecaySample_update 0 (1 / 2) 100 (new_ExpDecaySample 0 (15 / 1000) 1028)) = []
   \<and> map snd (e_values
     (ExpDecaySample_update 0 (1 / 2) 100 (new_ExpDecaySample 0 (15 / 1000) 1028))) = [100]"
  by (simp add: UniformSample_values_def ExpDecaySample_update_def new_ExpDecaySample_def
      Date_new_def getTime_def setTime_def rescaleThreshold_def UniformSample_size_def Let_def)

end
